theory Spec2Isabelle
  imports Complex_Main
begin

section \<open>TrustRail: trust scoring, approval decision, trust rules and instalment schedule\<close>

text \<open>
  A shallow embedding of the scoring and decision logic of the mock backend
  (\<^verbatim>\<open>src/services/mockApi.ts\<close>), of the tier mapping of the trust-rules page
  (\<^verbatim>\<open>pages/TrustRules.tsx\<close>) and of the instalment preview of the customer payment
  page (\<^verbatim>\<open>pages/CustomerPayment.tsx\<close>).

  A JavaScript \<^verbatim>\<open>number\<close> is modelled as a \<^typ>\<open>real\<close>: the model covers finite
  numbers only (no \<^verbatim>\<open>NaN\<close>, no \<^verbatim>\<open>Infinity\<close>). An optional field
  (\<^verbatim>\<open>field?: T\<close>) is a \<^typ>\<open>'a option\<close>, \<^verbatim>\<open>undefined\<close> being \<^term>\<open>None\<close>.
  The scoring function only compares amounts and adds the integers 50, 20, 15, 10 and a
  jitter below 15, all of which are exact in double precision. The instalment preview
  multiplies and divides amounts, so its arithmetic is a parameter of the model (see
  the section on the schedule).
\<close>

subsection \<open>Data model (\<^verbatim>\<open>src/types/api.ts\<close>)\<close>

datatype PaymentType = INSTALMENT | SUBSCRIPTION

datatype ApplicationStatus = approved | under_review | declined

record PaymentApplicationData =
  business_id :: string
  customer_name :: string
  customer_email :: string
  customer_phone :: string
  customer_bvn :: "string option"
  service_description :: string
  payment_type :: PaymentType
  total_amount :: "real option"
  recurring_amount :: "real option"
  commitment_months :: "real option"
  payment_frequency :: string
  preferred_start_date :: string
  bank_name :: string
  account_number :: string
  account_name :: string

record PaymentApplication = PaymentApplicationData +
  id :: string
  status :: ApplicationStatus
  trust_score :: real
  created_at :: string
  updated_at :: string

subsection \<open>Truthiness and the \<^verbatim>\<open>||\<close> chain\<close>

text \<open>
  \<^verbatim>\<open>if (data.customer_bvn)\<close>: an optional string is truthy when it is present and not
  the empty string.
\<close>

definition truthy_string :: "string option \<Rightarrow> bool" where
  "truthy_string s = (case s of None \<Rightarrow> False | Some v \<Rightarrow> v \<noteq> [])"

text \<open>
  \<^verbatim>\<open>a || b\<close> on an optional number \<open>a\<close>: the value of \<open>a\<close> when \<open>a\<close> is truthy
  (present and not zero), else \<open>b\<close>.
\<close>

definition or_else :: "real option \<Rightarrow> real \<Rightarrow> real" where
  "or_else a b = (case a of None \<Rightarrow> b | Some v \<Rightarrow> if v = 0 then b else v)"

subsection \<open>\<^verbatim>\<open>calculateMockTrustScore\<close> (mockApi.ts, lines 57 to 76)\<close>

text \<open>\<^verbatim>\<open>const amount = data.total_amount || data.recurring_amount || 0\<close>\<close>

definition application_amount :: "'a PaymentApplicationData_scheme \<Rightarrow> real" where
  "application_amount data = or_else (total_amount data) (or_else (recurring_amount data) 0)"

text \<open>
  The value of the variable \<^verbatim>\<open>score\<close> after line 70, that is before the random factor
  is added: the base score, the BVN bonus, the amount adjustment and the frequency bonus.
\<close>

definition score_before_random :: "'a PaymentApplicationData_scheme \<Rightarrow> real" where
  "score_before_random data =
     (let score = 50;
          score = (if truthy_string (customer_bvn data) then score + 20 else score);
          amount = application_amount data;
          score = (if amount < 50000 then score + 20
                   else if amount < 100000 then score + 15
                   else if amount < 200000 then score + 10
                   else score);
          score = (if payment_frequency data = ''monthly'' then score + 10 else score)
      in score)"

text \<open>
  \<^verbatim>\<open>score += Math.floor(Math.random() * 15)\<close> and the final clamp
  \<^verbatim>\<open>Math.min(100, Math.max(0, score))\<close>. The value returned by \<^verbatim>\<open>Math.random()\<close> is the
  parameter \<open>rnd\<close>; the language guarantees \<open>0 \<le> rnd < 1\<close>.
\<close>

definition calculateMockTrustScore :: "'a PaymentApplicationData_scheme \<Rightarrow> real \<Rightarrow> real" where
  "calculateMockTrustScore data rnd =
     (let score = score_before_random data;
          score = score + of_int \<lfloor>rnd * 15\<rfloor>
      in min 100 (max 0 score))"

subsection \<open>The scoring rule as the specification words it\<close>

text \<open>
  The specification describes the score as a function \<^verbatim>\<open>computeTrustScore\<close> of
  \<^verbatim>\<open>{ has_bvn, amount, payment_frequency }\<close> and a jitter: base 50, plus 20 with a BVN, plus
  the amount adjustment, plus 10 for the monthly frequency, plus the jitter, clamped to
  \<open>[0, 100]\<close>. These definitions follow its words, to be compared with the code above.
\<close>

definition amount_adjustment :: "real \<Rightarrow> real" where
  "amount_adjustment amount =
     (if amount < 50000 then 20
      else if amount < 100000 then 15
      else if amount < 200000 then 10
      else 0)"

definition computeTrustScore :: "bool \<Rightarrow> real \<Rightarrow> string \<Rightarrow> int \<Rightarrow> real" where
  "computeTrustScore has_bvn amount frequency jitter =
     min 100 (max 0
       (50 + (if has_bvn then 20 else 0) + amount_adjustment amount
          + (if frequency = ''monthly'' then 10 else 0) + of_int jitter))"

text \<open>
  The amount as the specification selects it: \<^verbatim>\<open>total_amount\<close> for an INSTALMENT
  application, else \<^verbatim>\<open>recurring_amount\<close>, and 0 when the field is absent.
\<close>

definition claimed_amount :: "'a PaymentApplicationData_scheme \<Rightarrow> real" where
  "claimed_amount data =
     (if payment_type data = INSTALMENT
      then (case total_amount data of Some a \<Rightarrow> a | None \<Rightarrow> 0)
      else (case recurring_amount data of Some a \<Rightarrow> a | None \<Rightarrow> 0))"

subsection \<open>\<^verbatim>\<open>getStatusFromScore\<close> (mockApi.ts, lines 81 to 85)\<close>

definition getStatusFromScore :: "real \<Rightarrow> ApplicationStatus" where
  "getStatusFromScore score =
     (if score \<ge> 70 then approved
      else if score \<ge> 40 then under_review
      else declined)"

subsection \<open>The remaining records of \<^verbatim>\<open>src/types/api.ts\<close>\<close>

text \<open>
  Several interfaces share field names (\<^verbatim>\<open>id\<close>, \<^verbatim>\<open>business_id\<close>, \<^verbatim>\<open>created_at\<close>,
  \<^verbatim>\<open>updated_at\<close>); the fields of the later records are written with the record's name
  in front (\<open>Business.id\<close>, \<open>Notification.business_id\<close>).
\<close>

datatype VerificationStatus = pending | verified | rejected

record RegisterBusinessData =
  business_name :: string
  email :: string
  phone :: string
  password :: string
  industry :: string

record Business =
  id :: string
  business_name :: string
  email :: string
  phone :: string
  industry :: string
  payment_slug :: string
  verification_status :: VerificationStatus
  cac_certificate_url :: "string option"
  created_at :: string
  updated_at :: string

record TrustRulesData =
  id :: "string option"
  business_id :: "string option"
  trusted_min :: real
  verified_min :: real
  new_min :: real
  restricted_min :: real
  auto_approve_threshold :: real
  auto_decline_threshold :: real
  max_outstanding_balance :: real
  consecutive_failure_limit :: real
  late_payment_penalty :: real
  on_time_bonus :: real
  min_history_for_trusted :: real
  created_at :: "string option"
  updated_at :: "string option"

datatype NotificationType =
  payment_received | trust_score_updated | customer_added
  | application_approved | application_declined | application_under_review

record Notification =
  id :: string
  business_id :: string
  type :: NotificationType
  title :: string
  message :: string
  read :: bool
  created_at :: string
  related_id :: "string option"

subsection \<open>The storage of the mock backend (mockApi.ts, lines 47 to 52)\<close>

text \<open>
  The four \<^verbatim>\<open>Map\<close>s of \<^verbatim>\<open>storage\<close>, keyed by id. \<^verbatim>\<open>storage.x.get(k)\<close> is \<open>x st k\<close>
  and \<^verbatim>\<open>storage.x.set(k, v)\<close> is \<open>st\<lparr>x := (x st)(k \<mapsto> v)\<rparr>\<close>. The copy that
  \<^verbatim>\<open>saveToLocalStorage\<close> writes after each update mirrors the map and is not modelled.
\<close>

record Storage =
  businesses :: "string \<rightharpoonup> Business"
  applications :: "string \<rightharpoonup> PaymentApplication"
  trustRules :: "string \<rightharpoonup> TrustRulesData"
  notifications :: "string \<rightharpoonup> Notification"

datatype ApiError = Error string

subsection \<open>\<^verbatim>\<open>submitApplication\<close> and \<^verbatim>\<open>createNotification\<close> (mockApi.ts, lines 314 to 352)\<close>

text \<open>
  What a submission reads from outside the program: the value of \<^verbatim>\<open>Math.random()\<close>,
  the two results of \<^verbatim>\<open>crypto.randomUUID()\<close> and the three readings of the clock
  (\<^verbatim>\<open>new Date().toISOString()\<close>).
\<close>

record SubmitEnv =
  random :: real
  application_uuid :: string
  application_created :: string
  application_updated :: string
  notification_uuid :: string
  notification_created :: string

text \<open>\<^verbatim>\<open>application.status.replace('_', ' ')\<close> on the three status strings.\<close>

fun status_text :: "ApplicationStatus \<Rightarrow> string" where
  "status_text approved = ''approved''"
| "status_text under_review = ''under review''"
| "status_text declined = ''declined''"

definition createNotification :: "SubmitEnv \<Rightarrow> PaymentApplication \<Rightarrow> Storage \<Rightarrow> Storage" where
  "createNotification env application st =
     (let notification =
        \<lparr> Notification.id = notification_uuid env,
          Notification.business_id = PaymentApplicationData.business_id application,
          type = (if status application = approved then application_approved
                  else if status application = declined then application_declined
                  else application_under_review),
          title = (if status application = approved then ''Application Approved''
                   else if status application = declined then ''Application Declined''
                   else ''Application Under Review''),
          message = ''Payment application from '' @ customer_name application @ '' is ''
                      @ status_text (status application),
          read = False,
          Notification.created_at = notification_created env,
          related_id = Some (PaymentApplication.id application) \<rparr>
      in st\<lparr>notifications := (notifications st)(Notification.id notification \<mapsto> notification)\<rparr>)"

text \<open>
  The function has no check and no \<^verbatim>\<open>throw\<close>: it scores the data, stores the new
  application under its fresh id, creates the notification and returns the application.
  The result is the returned application and the storage after the call.
\<close>

definition submitApplication ::
  "SubmitEnv \<Rightarrow> PaymentApplicationData \<Rightarrow> Storage \<Rightarrow> PaymentApplication \<times> Storage" where
  "submitApplication env data st =
     (let trustScore = calculateMockTrustScore data (random env);
          status = getStatusFromScore trustScore;
          application = PaymentApplicationData.extend data
            (PaymentApplication.fields (application_uuid env) status trustScore
               (application_created env) (application_updated env));
          st = st\<lparr>applications :=
                 (applications st)(PaymentApplication.id application \<mapsto> application)\<rparr>;
          st = createNotification env application st
      in (application, st))"

definition getApplicationById :: "string \<Rightarrow> Storage \<Rightarrow> ApiError + PaymentApplication" where
  "getApplicationById i st =
     (case applications st i of
        None \<Rightarrow> Inl (Error ''Payment application not found'')
      | Some application \<Rightarrow> Inr application)"

subsection \<open>Trust rules (mockApi.ts, lines 191 to 227 and 408 to 443)\<close>

text \<open>The object literal that both \<^verbatim>\<open>registerBusiness\<close> and \<^verbatim>\<open>getTrustRules\<close> build.\<close>

definition defaultRules :: "string \<Rightarrow> TrustRulesData" where
  "defaultRules businessId =
     \<lparr> TrustRulesData.id = None,
       TrustRulesData.business_id = Some businessId,
       trusted_min = 80,
       verified_min = 60,
       new_min = 40,
       restricted_min = 20,
       auto_approve_threshold = 70,
       auto_decline_threshold = 30,
       max_outstanding_balance = 1000000,
       consecutive_failure_limit = 3,
       late_payment_penalty = 5,
       on_time_bonus = 3,
       min_history_for_trusted = 6,
       TrustRulesData.created_at = None,
       TrustRulesData.updated_at = None \<rparr>"

definition getTrustRules :: "string \<Rightarrow> Storage \<Rightarrow> TrustRulesData \<times> Storage" where
  "getTrustRules businessId st =
     (case trustRules st businessId of
        Some rules \<Rightarrow> (rules, st)
      | None \<Rightarrow>
          (let rules = defaultRules businessId
           in (rules, st\<lparr>trustRules := (trustRules st)(businessId \<mapsto> rules)\<rparr>)))"

definition updateTrustRules :: "string \<Rightarrow> string \<Rightarrow> TrustRulesData \<Rightarrow> Storage \<Rightarrow> Storage" where
  "updateTrustRules now businessId rules st =
     st\<lparr>trustRules := (trustRules st)(businessId \<mapsto>
          rules\<lparr>TrustRulesData.business_id := Some businessId,
                TrustRulesData.updated_at := Some now\<rparr>)\<rparr>"

text \<open>
  \<^verbatim>\<open>data.business_name.toLowerCase().replace(/\s+/g, '-')\<close>, on ASCII: upper-case
  letters are lowered and each maximal run of white space becomes one hyphen.
\<close>

definition is_space :: "char \<Rightarrow> bool" where
  "is_space c = ((of_char c :: nat) \<in> {9, 10, 11, 12, 13, 32})"

definition to_lower :: "char \<Rightarrow> char" where
  "to_lower c = (let n = (of_char c :: nat) in if 65 \<le> n \<and> n \<le> 90 then char_of (n + 32) else c)"

function replace_spaces :: "string \<Rightarrow> string" where
  "replace_spaces [] = []"
| "replace_spaces (c # cs) =
     (if is_space c then CHR ''-'' # replace_spaces (dropWhile is_space cs)
      else c # replace_spaces cs)"
  by pat_completeness auto
termination
  by (relation "measure length") (auto simp: le_imp_less_Suc length_dropWhile_le)

definition slug_of :: "string \<Rightarrow> string" where
  "slug_of name = replace_spaces (map to_lower name)"

record RegisterEnv =
  business_uuid :: string
  business_created :: string
  business_updated :: string

definition registerBusiness :: "RegisterEnv \<Rightarrow> RegisterBusinessData \<Rightarrow> Storage \<Rightarrow> Business \<times> Storage" where
  "registerBusiness env data st =
     (let business =
        \<lparr> Business.id = business_uuid env,
          Business.business_name = RegisterBusinessData.business_name data,
          Business.email = RegisterBusinessData.email data,
          Business.phone = RegisterBusinessData.phone data,
          Business.industry = RegisterBusinessData.industry data,
          payment_slug = slug_of (RegisterBusinessData.business_name data),
          verification_status = pending,
          cac_certificate_url = None,
          Business.created_at = business_created env,
          Business.updated_at = business_updated env \<rparr>;
          st = st\<lparr>businesses := (businesses st)(Business.id business \<mapsto> business)\<rparr>;
          st = st\<lparr>trustRules := (trustRules st)(Business.id business \<mapsto> defaultRules (Business.id business))\<rparr>
      in (business, st))"

subsection \<open>Payment rules (CustomerPayment.tsx, Register.tsx and the SQL schema)\<close>

text \<open>
  The interface \<^verbatim>\<open>PaymentRules\<close> of the customer payment page. The instalment count is
  an \<^typ>\<open>int\<close>, as the column \<^verbatim>\<open>max_instalment_period integer\<close> of the schema is.
\<close>

record PaymentRules =
  min_order_value :: real
  max_instalment_period :: int
  down_payment_percentage :: real
  enable_fees :: bool
  interest_rate :: real

text \<open>
  A row of the table \<^verbatim>\<open>payment_rules\<close>: the fields above and the remaining columns.
  The registration page inserts \<^verbatim>\<open>{ business_id }\<close>; every other column takes the
  \<^verbatim>\<open>DEFAULT\<close> of the schema (\<^verbatim>\<open>20260121091423_create_trustrail_schema.sql\<close>). The
  generated \<^verbatim>\<open>id\<close> and the two time stamps are left out.
\<close>

record PaymentRulesRow = PaymentRules +
  business_id :: string
  late_fee :: real
  auto_approve_threshold :: int
  auto_decline_threshold :: int

definition insert_payment_rules :: "string \<Rightarrow> PaymentRulesRow" where
  "insert_payment_rules businessId =
     \<lparr> min_order_value = 50000,
       max_instalment_period = 6,
       down_payment_percentage = 30,
       enable_fees = False,
       interest_rate = 0,
       PaymentRulesRow.business_id = businessId,
       late_fee = 0,
       PaymentRulesRow.auto_approve_threshold = 70,
       PaymentRulesRow.auto_decline_threshold = 40 \<rparr>"

subsection \<open>The trust-rules page: \<^verbatim>\<open>getTrustStateName\<close> (TrustRules.tsx)\<close>

text \<open>
  The page keeps its own view of the rules (its local interface is also called
  \<^verbatim>\<open>TrustRulesData\<close>; here \<open>RulesView\<close>), initialised by \<^verbatim>\<open>useState\<close> and replaced
  by \<^verbatim>\<open>loadRules\<close> with the rules read from the API.
\<close>

record RulesView =
  trustedThreshold :: real
  verifiedThreshold :: real
  newCustomerThreshold :: real
  restrictedThreshold :: real
  autoApproveAbove :: real
  autoDeclineBelow :: real
  requireManualReview :: bool
  maxOutstandingPerCustomer :: real
  allowEmergencyOverride :: bool
  consecutiveFailureLimit :: real
  penaltyForLatePay :: real
  bonusForOnTime :: real
  minimumHistoryForTrusted :: real

definition initialRules :: RulesView where
  "initialRules =
     \<lparr> trustedThreshold = 80,
       verifiedThreshold = 60,
       newCustomerThreshold = 40,
       restrictedThreshold = 20,
       autoApproveAbove = 70,
       autoDeclineBelow = 30,
       requireManualReview = True,
       maxOutstandingPerCustomer = 200000,
       allowEmergencyOverride = True,
       consecutiveFailureLimit = 3,
       penaltyForLatePay = 10,
       bonusForOnTime = 5,
       minimumHistoryForTrusted = 5 \<rparr>"

text \<open>The mapping of \<^verbatim>\<open>loadRules\<close> from the API data to the view.\<close>

definition loadRules :: "TrustRulesData \<Rightarrow> RulesView" where
  "loadRules apiRules =
     \<lparr> trustedThreshold = trusted_min apiRules,
       verifiedThreshold = verified_min apiRules,
       newCustomerThreshold = new_min apiRules,
       restrictedThreshold = restricted_min apiRules,
       autoApproveAbove = TrustRulesData.auto_approve_threshold apiRules,
       autoDeclineBelow = TrustRulesData.auto_decline_threshold apiRules,
       requireManualReview = True,
       maxOutstandingPerCustomer = max_outstanding_balance apiRules,
       allowEmergencyOverride = True,
       consecutiveFailureLimit = consecutive_failure_limit apiRules,
       penaltyForLatePay = late_payment_penalty apiRules,
       bonusForOnTime = on_time_bonus apiRules,
       minimumHistoryForTrusted = min_history_for_trusted apiRules \<rparr>"

record TrustState =
  name :: string
  color :: string
  policy :: string

definition getTrustStateName :: "RulesView \<Rightarrow> real \<Rightarrow> TrustState" where
  "getTrustStateName rules score =
     (if score \<ge> trustedThreshold rules then
        \<lparr> name = ''TRUSTED'',
          color = ''text-green-600 bg-green-50'',
          policy = ''Full approval, no down payment required'' \<rparr>
      else if score \<ge> verifiedThreshold rules then
        \<lparr> name = ''VERIFIED'',
          color = ''text-blue-600 bg-blue-50'',
          policy = ''80% approval, 20% down payment'' \<rparr>
      else if score \<ge> newCustomerThreshold rules then
        \<lparr> name = ''NEW'',
          color = ''text-yellow-600 bg-yellow-50'',
          policy = ''50% down payment required'' \<rparr>
      else if score \<ge> restrictedThreshold rules then
        \<lparr> name = ''RESTRICTED'',
          color = ''text-orange-600 bg-orange-50'',
          policy = ''Emergency requests only'' \<rparr>
      else
        \<lparr> name = ''DEFAULTED'',
          color = ''text-red-600 bg-red-50'',
          policy = ''No instalments allowed'' \<rparr>)"

subsection \<open>The instalment preview: \<^verbatim>\<open>getInstalmentSchedule\<close> (CustomerPayment.tsx)\<close>

datatype Frequency = monthly | biweekly | weekly | daily

text \<open>
  The form state. The text field \<^verbatim>\<open>totalAmount\<close> is kept as what the function reads
  from it: \<^term>\<open>None\<close> for the empty string (the only falsy string), \<open>Some x\<close> for a
  text whose \<^verbatim>\<open>Number(...)\<close> is the finite number \<open>x\<close>; \<^verbatim>\<open>recurringAmount\<close> likewise.
\<close>

record FormData =
  fullName :: string
  email :: string
  phone :: string
  bvn :: string
  serviceDescription :: string
  totalAmount :: "real option"
  recurringAmount :: "real option"
  commitmentMonths :: real
  paymentFrequency :: Frequency
  preferredStartDate :: string
  bankName :: string
  accountNumber :: string
  accountName :: string
  agreedToTerms :: bool
  agreedToDebit :: bool

text \<open>
  A payment date is kept as the computation that produces it: the start date and the
  number of months (\<^verbatim>\<open>setMonth(startDate.getMonth() + k)\<close>) or of days
  (\<^verbatim>\<open>setDate(startDate.getDate() + k)\<close>) added to it. The calendar is not modelled.
\<close>

datatype PaymentDate = SetMonth string int | SetDate string int

record ScheduleEntry =
  number :: int
  date :: PaymentDate
  amount :: real

record InstalmentSchedule =
  downPayment :: real
  installmentAmount :: real
  numInstalments :: int
  totalInterest :: real
  total :: real
  schedule :: "ScheduleEntry list"

text \<open>
  The result: \<^verbatim>\<open>null\<close>, the object, or \<open>NotFinite\<close> for the one case in which the
  object holds a value outside the model: with zero instalments the division
  \<^verbatim>\<open>totalWithInterest / numInstalments\<close> is \<^verbatim>\<open>Infinity\<close> or \<^verbatim>\<open>NaN\<close>.
\<close>

datatype ScheduleResult = Null | NotFinite | Schedule InstalmentSchedule

definition intervalDays :: "Frequency \<Rightarrow> int" where
  "intervalDays f = (case f of biweekly \<Rightarrow> 14 | weekly \<Rightarrow> 7 | daily \<Rightarrow> 1 | monthly \<Rightarrow> 30)"

text \<open>
  The arithmetic of the function is a parameter: \<open>fl\<close> maps the exact result of each
  \<^verbatim>\<open>*\<close>, \<^verbatim>\<open>/\<close>, \<^verbatim>\<open>+\<close> and \<^verbatim>\<open>-\<close> to the number the operation returns. With
  \<open>fl = (\<lambda>x. x)\<close> the arithmetic is exact; with \<open>fl = binary64\<close> (below) it is that of
  JavaScript numbers. The loop \<^verbatim>\<open>for (let i = 1; i <= numInstalments; i++)\<close> is the map
  over \<open>[1..numInstalments]\<close>.
\<close>

definition getInstalmentSchedule ::
  "(real \<Rightarrow> real) \<Rightarrow> PaymentType \<Rightarrow> FormData \<Rightarrow> 'a PaymentRules_scheme option \<Rightarrow> ScheduleResult" where
  "getInstalmentSchedule fl paymentType formData paymentRules =
     (case (totalAmount formData, paymentRules) of
        (Some n, Some rules) \<Rightarrow>
          if paymentType \<noteq> INSTALMENT then Null
          else
            (let amount = n;
                 downPaymentPercent = down_payment_percentage rules;
                 downPayment = fl (fl (amount * downPaymentPercent) / 100);
                 remaining = fl (amount - downPayment);
                 numInstalments = max_instalment_period rules;
                 monthlyInterest =
                   (if enable_fees rules then fl (fl (remaining * interest_rate rules) / 100) else 0);
                 totalInterest = fl (monthlyInterest * of_int numInstalments);
                 totalWithInterest = fl (remaining + totalInterest);
                 installmentAmount = fl (totalWithInterest / of_int numInstalments);
                 startDate = preferredStartDate formData;
                 schedule = map (\<lambda>i.
                     \<lparr> number = i,
                       date = (if paymentFrequency formData = monthly then SetMonth startDate (i - 1)
                               else SetDate startDate (intervalDays (paymentFrequency formData) * (i - 1))),
                       amount = installmentAmount \<rparr>) [1..numInstalments]
             in if numInstalments = 0 then NotFinite
                else Schedule
                  \<lparr> downPayment = downPayment,
                    installmentAmount = installmentAmount,
                    numInstalments = numInstalments,
                    totalInterest = totalInterest,
                    total = fl (amount + totalInterest),
                    schedule = schedule \<rparr>)
      | _ \<Rightarrow> Null)"




subsection \<open>Double-precision arithmetic\<close>

text \<open>
  A JavaScript number is an IEEE 754 binary64 value, and each arithmetic operation
  returns the exact result rounded to the nearest such value, ties to the even
  significand. \<open>binary64 x\<close> is that rounding for a real \<open>x\<close> in the normal range (about
  \<open>2.2e-308\<close> to \<open>1.8e308\<close> in magnitude; overflow and subnormal numbers are not
  modelled): \<open>\<bar>x\<bar>\<close> is scaled by a power of two into \<open>[2\<^sup>5\<^sup>2, 2\<^sup>5\<^sup>3)\<close>, rounded to an
  integer, and scaled back.
\<close>

function halve_down :: "real \<Rightarrow> int \<Rightarrow> real \<times> int" where
  "halve_down a e = (if a \<ge> 2 ^ 53 then halve_down (a / 2) (e + 1) else (a, e))"
  by pat_completeness auto
termination
proof (relation "measure (\<lambda>(a, e). nat \<lceil>a\<rceil>)")
  show "wf (measure (\<lambda>(a :: real, e :: int). nat \<lceil>a\<rceil>))"
    by simp
next
  fix a :: real and e :: int
  assume big: "2 ^ 53 \<le> a"
  then have "a / 2 \<le> a - 1"
    by simp
  then have "\<lceil>a / 2\<rceil> \<le> \<lceil>a - 1\<rceil>"
    by (rule ceiling_mono)
  moreover have "0 < \<lceil>a\<rceil>"
    using big by simp
  ultimately show "((a / 2, e + 1), (a, e)) \<in> measure (\<lambda>(a, e). nat \<lceil>a\<rceil>)"
    by simp
qed

function double_up :: "real \<Rightarrow> int \<Rightarrow> real \<times> int" where
  "double_up a e = (if 0 < a \<and> a < 2 ^ 52 then double_up (a * 2) (e - 1) else (a, e))"
  by pat_completeness auto
termination
proof (relation "measure (\<lambda>(a, e). nat \<lceil>2 ^ 52 / a\<rceil>)")
  show "wf (measure (\<lambda>(a :: real, e :: int). nat \<lceil>2 ^ 52 / a\<rceil>))"
    by simp
next
  fix a :: real and e :: int
  assume small: "0 < a \<and> a < 2 ^ 52"
  define x where "x = 2 ^ 52 / a"
  have x: "1 < x"
    using small by (simp add: x_def)
  have "\<lceil>x / 2\<rceil> < \<lceil>x\<rceil>"
  proof (cases "x \<le> 2")
    case True
    then have "\<lceil>x / 2\<rceil> \<le> 1"
      by (simp add: ceiling_le_iff)
    moreover have "1 < \<lceil>x\<rceil>"
      using x by (simp add: less_ceiling_iff)
    ultimately show ?thesis
      by linarith
  next
    case False
    then have "x / 2 \<le> x - 1"
      by simp
    then have "\<lceil>x / 2\<rceil> \<le> \<lceil>x - 1\<rceil>"
      by (rule ceiling_mono)
    then show ?thesis
      by simp
  qed
  moreover have "2 ^ 52 / (a * 2) = x / 2"
    by (simp add: x_def)
  moreover have "0 < \<lceil>x\<rceil>"
    using x by simp
  ultimately show "((a * 2, e - 1), (a, e)) \<in> measure (\<lambda>(a, e). nat \<lceil>2 ^ 52 / a\<rceil>)"
    by (simp add: x_def)
qed

definition round_half_even :: "real \<Rightarrow> int" where
  "round_half_even m =
     (let f = \<lfloor>m\<rfloor>; d = m - of_int f
      in if d < 1 / 2 then f else if d > 1 / 2 then f + 1 else if even f then f else f + 1)"

definition binary64 :: "real \<Rightarrow> real" where
  "binary64 x =
     (if x = 0 then 0
      else let (a, e) = halve_down \<bar>x\<bar> 0;
               (m, e) = double_up a e;
               r = of_int (round_half_even m)
           in sgn x * (if e \<ge> 0 then r * 2 ^ nat e else r / 2 ^ nat (- e)))"

subsection \<open>Sequences of submissions and sample inputs\<close>

text \<open>A run of the backend: the submissions of a list of calls, one after the other.\<close>

fun submit_all :: "(SubmitEnv \<times> PaymentApplicationData) list \<Rightarrow> Storage \<Rightarrow> Storage" where
  "submit_all [] st = st"
| "submit_all ((env, data) # calls) st = submit_all calls (snd (submitApplication env data st))"

definition empty_storage :: Storage where
  "empty_storage =
     \<lparr> businesses = Map.empty, applications = Map.empty,
       trustRules = Map.empty, notifications = Map.empty \<rparr>"

text \<open>
  An INSTALMENT application of 40,000 with a BVN and monthly payments, and an environment
  whose random number gives the jitter \<open>\<lfloor>0.05 * 15\<rfloor> = 0\<close>.
\<close>

definition sample_application :: PaymentApplicationData where
  "sample_application =
     \<lparr> PaymentApplicationData.business_id = ''b-1'',
       customer_name = ''Ada Obi'',
       customer_email = ''ada@example.com'',
       customer_phone = ''08030000000'',
       customer_bvn = Some ''12345678901'',
       service_description = ''Dental treatment'',
       payment_type = INSTALMENT,
       total_amount = Some 40000,
       recurring_amount = None,
       commitment_months = None,
       payment_frequency = ''monthly'',
       preferred_start_date = ''2026-02-01'',
       bank_name = ''GTBank'',
       account_number = ''0123456789'',
       account_name = ''Ada Obi'' \<rparr>"

definition sample_env :: SubmitEnv where
  "sample_env =
     \<lparr> random = 1 / 20,
       application_uuid = ''app-1'',
       application_created = ''2026-01-22T09:00:00.000Z'',
       application_updated = ''2026-01-22T09:00:00.000Z'',
       notification_uuid = ''note-1'',
       notification_created = ''2026-01-22T09:00:00.001Z'' \<rparr>"

text \<open>
  A subscription of 10,000 a month for 24 months, without BVN, whose payload also
  carries the total of 240,000.
\<close>

definition subscription_with_total :: PaymentApplicationData where
  "subscription_with_total =
     sample_application
       \<lparr> customer_bvn := None,
         payment_type := SUBSCRIPTION,
         total_amount := Some 240000,
         recurring_amount := Some 10000,
         commitment_months := Some 24 \<rparr>"

text \<open>An INSTALMENT application without its \<^verbatim>\<open>total_amount\<close>.\<close>

definition instalment_without_amount :: PaymentApplicationData where
  "instalment_without_amount = sample_application\<lparr>total_amount := None\<rparr>"

text \<open>A registration, and the environment it runs in.\<close>

definition sample_registration :: RegisterBusinessData where
  "sample_registration =
     \<lparr> RegisterBusinessData.business_name = ''Lagos  Dental Care'',
       RegisterBusinessData.email = ''office@example.com'',
       RegisterBusinessData.phone = ''08030000001'',
       password = ''secret'',
       RegisterBusinessData.industry = ''Healthcare'' \<rparr>"

definition sample_register_env :: RegisterEnv where
  "sample_register_env =
     \<lparr> business_uuid = ''b-1'',
       business_created = ''2026-01-21T09:00:00.000Z'',
       business_updated = ''2026-01-21T09:00:00.000Z'' \<rparr>"

text \<open>
  The form of an instalment plan of 150,000 paid monthly, and payment rules with six
  instalments, no down payment and no fees.
\<close>

definition sample_form :: FormData where
  "sample_form =
     \<lparr> fullName = ''Ada Obi'',
       FormData.email = ''ada@example.com'',
       FormData.phone = ''08030000000'',
       bvn = ''12345678901'',
       serviceDescription = ''Dental treatment'',
       totalAmount = Some 150000,
       recurringAmount = None,
       commitmentMonths = 0,
       paymentFrequency = monthly,
       preferredStartDate = ''2026-02-01'',
       bankName = ''GTBank'',
       accountNumber = ''0123456789'',
       accountName = ''Ada Obi'',
       agreedToTerms = True,
       agreedToDebit = True \<rparr>"


section \<open>Properties\<close>

subsection \<open>The decision mapping\<close>

text \<open>
  C2. For every integer score \<open>s\<close> in \<open>[0, 100]\<close> the decision mapping returns approved
  when \<open>s \<ge> 70\<close>, under review when \<open>40 \<le> s < 70\<close> and declined when \<open>s < 40\<close>; in
  particular 70 is approved, 69 and 40 are under review, and 39 is declined.
\<close>

theorem getStatusFromScore_brackets:
  fixes s :: int
  assumes "0 \<le> s" and "s \<le> 100"
  shows "(s \<ge> 70 \<longrightarrow> getStatusFromScore (of_int s) = approved)
       \<and> (40 \<le> s \<and> s < 70 \<longrightarrow> getStatusFromScore (of_int s) = under_review)
       \<and> (s < 40 \<longrightarrow> getStatusFromScore (of_int s) = declined)
       \<and> getStatusFromScore 70 = approved
       \<and> getStatusFromScore 69 = under_review
       \<and> getStatusFromScore 40 = under_review
       \<and> getStatusFromScore 39 = declined"
  by (simp add: getStatusFromScore_def)

theorem getStatusFromScore_brackets_witness:
  "(0::int) \<le> 85 \<and> (85::int) \<le> 100 \<and> (70::int) \<le> 85
     \<and> getStatusFromScore (of_int 85) = approved
   \<and> (0::int) \<le> 55 \<and> (55::int) \<le> 100 \<and> (40::int) \<le> 55 \<and> (55::int) < 70
     \<and> getStatusFromScore (of_int 55) = under_review
   \<and> (0::int) \<le> 10 \<and> (10::int) \<le> 100 \<and> (10::int) < 40
     \<and> getStatusFromScore (of_int 10) = declined"
  using getStatusFromScore_brackets [of 85] getStatusFromScore_brackets [of 55]
    getStatusFromScore_brackets [of 10]
  by simp

subsection \<open>The trust score\<close>


lemma score_before_random_sum:
  "score_before_random data =
     50 + (if truthy_string (customer_bvn data) then 20 else 0)
        + amount_adjustment (application_amount data)
        + (if payment_frequency data = ''monthly'' then 10 else 0)"
  by (simp add: score_before_random_def amount_adjustment_def Let_def)

lemma calculateMockTrustScore_eq:
  "calculateMockTrustScore data rnd =
     computeTrustScore (truthy_string (customer_bvn data)) (application_amount data)
       (payment_frequency data) \<lfloor>rnd * 15\<rfloor>"
  by (simp add: calculateMockTrustScore_def computeTrustScore_def score_before_random_sum Let_def)


lemmas sample_simps =
  sample_application_def sample_env_def subscription_with_total_def
  instalment_without_amount_def empty_storage_def truthy_string_def
  application_amount_def or_else_def amount_adjustment_def computeTrustScore_def
  claimed_amount_def




text \<open>
  C7, as the claim states it, fails on the code: with a BVN, an amount below 50,000 and
  the monthly frequency the contributions without the jitter add up to
  \<open>50 + 20 + 20 + 10 = 100\<close>, above the claimed bound 90.
\<close>

theorem score_before_random_counterexample:
  "score_before_random sample_application = 100
   \<and> \<not> score_before_random sample_application \<le> 90"
  by (simp add: score_before_random_sum sample_simps)

text \<open>
  C7, amended. For every payment application input the sum of the contributions without
  the jitter (base, BVN bonus, amount adjustment, frequency bonus) lies in \<open>[50, 100]\<close>
  before clamping, and the final clamped score lies in \<open>[0, 100]\<close>.
\<close>

theorem score_before_random_bounds:
  "50 \<le> score_before_random data \<and> score_before_random data \<le> 100
   \<and> 0 \<le> calculateMockTrustScore data rnd \<and> calculateMockTrustScore data rnd \<le> 100"
  by (simp add: calculateMockTrustScore_def score_before_random_sum amount_adjustment_def Let_def)

subsection \<open>Submission\<close>

lemma submitApplication_fst:
  "fst (submitApplication env data st) =
     PaymentApplicationData.extend data
       (PaymentApplication.fields (application_uuid env)
          (getStatusFromScore (calculateMockTrustScore data (random env)))
          (calculateMockTrustScore data (random env))
          (application_created env) (application_updated env))"
  by (simp add: submitApplication_def Let_def)

lemma submitApplication_status:
  "status (fst (submitApplication env data st)) =
     getStatusFromScore (calculateMockTrustScore data (random env))"
  by (simp add: submitApplication_fst PaymentApplicationData.defs PaymentApplication.defs)

lemma submitApplication_trust_score:
  "trust_score (fst (submitApplication env data st)) =
     calculateMockTrustScore data (random env)"
  by (simp add: submitApplication_fst PaymentApplicationData.defs PaymentApplication.defs)

lemma submitApplication_truncate:
  "PaymentApplicationData.truncate (fst (submitApplication env data st)) = data"
  by (simp add: submitApplication_fst PaymentApplicationData.defs PaymentApplication.defs)

lemma submitApplication_applications:
  "applications (snd (submitApplication env data st)) =
     (applications st)(application_uuid env \<mapsto> fst (submitApplication env data st))"
  by (simp add: submitApplication_def createNotification_def Let_def
      PaymentApplicationData.defs PaymentApplication.defs)

lemma submitApplication_notifications:
  "notifications (snd (submitApplication env data st)) =
     (notifications st)(notification_uuid env \<mapsto>
        \<lparr> Notification.id = notification_uuid env,
          Notification.business_id = PaymentApplicationData.business_id data,
          type = (case status (fst (submitApplication env data st)) of
                    approved \<Rightarrow> application_approved
                  | under_review \<Rightarrow> application_under_review
                  | declined \<Rightarrow> application_declined),
          title = (case status (fst (submitApplication env data st)) of
                    approved \<Rightarrow> ''Application Approved''
                  | under_review \<Rightarrow> ''Application Under Review''
                  | declined \<Rightarrow> ''Application Declined''),
          message = ''Payment application from '' @ customer_name data @ '' is ''
                      @ status_text (status (fst (submitApplication env data st))),
          read = False,
          Notification.created_at = notification_created env,
          related_id = Some (application_uuid env) \<rparr>)"
  by (cases "getStatusFromScore (calculateMockTrustScore data (random env))")
     (simp_all add: submitApplication_def createNotification_def Let_def
      PaymentApplicationData.defs PaymentApplication.defs)

lemma score_at_least_50:
  assumes "0 \<le> rnd"
  shows "50 \<le> calculateMockTrustScore data rnd"
proof -
  have "0 \<le> \<lfloor>rnd * 15\<rfloor>"
    using assms by simp
  then have "(0::real) \<le> of_int \<lfloor>rnd * 15\<rfloor>"
    by simp
  then show ?thesis
    by (simp add: calculateMockTrustScore_def score_before_random_sum amount_adjustment_def
        Let_def)
qed

lemma not_declined:
  assumes "0 \<le> rnd"
  shows "getStatusFromScore (calculateMockTrustScore data rnd) \<noteq> declined"
  using score_at_least_50 [OF assms, of data]
  by (simp add: getStatusFromScore_def)

lemma submit_all_applications:
  assumes "\<forall>(env, data) \<in> set calls. 0 \<le> random env"
    and "applications (submit_all calls st) i = Some app"
  shows "applications st i = Some app \<or> (50 \<le> trust_score app \<and> status app \<noteq> declined)"
  using assms
proof (induction calls arbitrary: st)
  case Nil
  then show ?case by simp
next
  case (Cons c calls)
  obtain env data where c: "c = (env, data)"
    by (cases c)
  from Cons.prems have rnd: "0 \<le> random env"
    and rest: "\<forall>(env, data) \<in> set calls. 0 \<le> random env"
    by (simp_all add: c)
  let ?st = "snd (submitApplication env data st)"
  from Cons.prems(2) have "applications (submit_all calls ?st) i = Some app"
    by (simp add: c)
  with Cons.IH [OF rest] have "applications ?st i = Some app
      \<or> (50 \<le> trust_score app \<and> status app \<noteq> declined)"
    by blast
  then show ?case
  proof
    assume "applications ?st i = Some app"
    then show ?thesis
      using rnd score_at_least_50 [of "random env" data] not_declined [of "random env" data]
      by (auto simp: submitApplication_applications submitApplication_status
          submitApplication_trust_score split: if_splits)
  qed simp
qed

lemma submit_all_notifications:
  assumes "\<forall>(env, data) \<in> set calls. 0 \<le> random env"
    and "notifications (submit_all calls st) i = Some n"
  shows "notifications st i = Some n \<or> type n \<noteq> application_declined"
  using assms
proof (induction calls arbitrary: st)
  case Nil
  then show ?case by simp
next
  case (Cons c calls)
  obtain env data where c: "c = (env, data)"
    by (cases c)
  from Cons.prems have rnd: "0 \<le> random env"
    and rest: "\<forall>(env, data) \<in> set calls. 0 \<le> random env"
    by (simp_all add: c)
  let ?st = "snd (submitApplication env data st)"
  from Cons.prems(2) have "notifications (submit_all calls ?st) i = Some n"
    by (simp add: c)
  with Cons.IH [OF rest] have "notifications ?st i = Some n \<or> type n \<noteq> application_declined"
    by blast
  then show ?case
  proof
    assume "notifications ?st i = Some n"
    then show ?thesis
      using not_declined [OF rnd, of data]
      by (auto simp: submitApplication_notifications submitApplication_status
          split: if_splits ApplicationStatus.splits)
  qed simp
qed

text \<open>
  C10. The score starts at 50 and every contribution is non-negative, so every computed
  trust score is at least 50 and its status is not declined. Hence, over any run of
  submissions, every application in the storage that the run created (that was not there
  before) has a score of at least 50 and a status other than declined, and every
  notification the run created has a type other than \<open>application_declined\<close>. The random
  numbers are those of \<^verbatim>\<open>Math.random()\<close>, in \<open>[0, 1)\<close>.
\<close>

theorem submission_never_declines:
  assumes "\<forall>(env, data) \<in> set calls. 0 \<le> random env \<and> random env < 1"
  shows "(0 \<le> rnd \<and> rnd < 1 \<longrightarrow>
            50 \<le> calculateMockTrustScore data rnd
            \<and> getStatusFromScore (calculateMockTrustScore data rnd) \<noteq> declined)
       \<and> (\<forall>i app. applications (submit_all calls st) i = Some app \<longrightarrow>
            applications st i = Some app
            \<or> (50 \<le> trust_score app \<and> status app \<noteq> declined))
       \<and> (\<forall>i n. notifications (submit_all calls st) i = Some n \<longrightarrow>
            notifications st i = Some n \<or> type n \<noteq> application_declined)"
proof -
  from assms have calls: "\<forall>(env, data) \<in> set calls. 0 \<le> random env"
    by auto
  show ?thesis
    using score_at_least_50 [of rnd data] not_declined [of rnd data]
      submit_all_applications [OF calls, of st] submit_all_notifications [OF calls, of st]
    by blast
qed

theorem submission_never_declines_witness:
  "0 \<le> random sample_env \<and> random sample_env < 1
   \<and> applications (submit_all [(sample_env, sample_application)] empty_storage) ''app-1''
       = Some (fst (submitApplication sample_env sample_application empty_storage))
   \<and> applications empty_storage ''app-1'' = None
   \<and> 50 \<le> trust_score (fst (submitApplication sample_env sample_application empty_storage))
   \<and> status (fst (submitApplication sample_env sample_application empty_storage)) \<noteq> declined"
  using submission_never_declines [of "[(sample_env, sample_application)]" "1 / 20"
      sample_application empty_storage]
  by (simp add: submitApplication_applications submitApplication_status sample_env_def
      empty_storage_def)

text \<open>
  C3. The approval decision computed at submission does not depend on the trust rules
  the business configured: whatever the storage holds (in particular whatever rules were
  saved for the business, with any \<^verbatim>\<open>auto_approve_threshold\<close> and
  \<^verbatim>\<open>auto_decline_threshold\<close>), the same data and random number give the same status,
  which is decided by the fixed cut-offs 70 and 40.
\<close>

theorem decision_ignores_trust_rules:
  "status (fst (submitApplication env data st1)) = status (fst (submitApplication env data st2))
   \<and> status (fst (submitApplication env data
        (updateTrustRules now (PaymentApplicationData.business_id data) rules st)))
       = status (fst (submitApplication env data st))
   \<and> status (fst (submitApplication env data st)) =
       (if 70 \<le> calculateMockTrustScore data (random env) then approved
        else if 40 \<le> calculateMockTrustScore data (random env) then under_review
        else declined)"
  by (simp add: submitApplication_status getStatusFromScore_def)

text \<open>
  C4, as the claim states it, fails on the code: the INSTALMENT application without
  \<^verbatim>\<open>total_amount\<close> is not rejected. It is stored, and can be read back, with the score
  100 and the status approved.
\<close>

theorem submission_without_amount_counterexample:
  "getApplicationById ''app-1''
       (snd (submitApplication sample_env instalment_without_amount empty_storage))
     = Inr (fst (submitApplication sample_env instalment_without_amount empty_storage))
   \<and> payment_type (fst (submitApplication sample_env instalment_without_amount empty_storage))
       = INSTALMENT
   \<and> total_amount (fst (submitApplication sample_env instalment_without_amount empty_storage))
       = None
   \<and> trust_score (fst (submitApplication sample_env instalment_without_amount empty_storage))
       = 100
   \<and> status (fst (submitApplication sample_env instalment_without_amount empty_storage))
       = approved"
proof -
  have "calculateMockTrustScore instalment_without_amount (1 / 20) = 100"
    by (simp add: calculateMockTrustScore_eq sample_simps)
  then show ?thesis
    by (simp add: getApplicationById_def submitApplication_applications
        submitApplication_status submitApplication_trust_score getStatusFromScore_def
        sample_env_def)
       (simp add: submitApplication_fst PaymentApplicationData.defs PaymentApplication.defs
        instalment_without_amount_def sample_application_def)
qed

text \<open>
  C4, amended. Submitting a payment application never fails and performs no validation:
  for every input, also one whose amount field for the chosen payment type is missing,
  the application is stored under its new id with the submitted data unchanged, can be
  read back, and a notification is created. When both amount fields are missing the
  score is computed with the amount 0.
\<close>

theorem submitApplication_accepts_every_input:
  "applications (snd (submitApplication env data st)) (application_uuid env)
     = Some (fst (submitApplication env data st))
   \<and> getApplicationById (application_uuid env) (snd (submitApplication env data st))
     = Inr (fst (submitApplication env data st))
   \<and> PaymentApplicationData.truncate (fst (submitApplication env data st)) = data
   \<and> notifications (snd (submitApplication env data st)) (notification_uuid env) \<noteq> None
   \<and> (total_amount data = None \<and> recurring_amount data = None \<longrightarrow>
        trust_score (fst (submitApplication env data st)) =
          computeTrustScore (truthy_string (customer_bvn data)) 0 (payment_frequency data)
            \<lfloor>random env * 15\<rfloor>)"
  by (simp add: getApplicationById_def submitApplication_applications
      submitApplication_notifications submitApplication_truncate
      submitApplication_trust_score calculateMockTrustScore_eq application_amount_def
      or_else_def)

theorem submitApplication_accepts_every_input_witness:
  "total_amount instalment_without_amount = None
   \<and> recurring_amount instalment_without_amount = None
   \<and> applications (snd (submitApplication sample_env instalment_without_amount empty_storage))
       (application_uuid sample_env)
     = Some (fst (submitApplication sample_env instalment_without_amount empty_storage))
   \<and> trust_score (fst (submitApplication sample_env instalment_without_amount empty_storage))
     = 100"
  using submitApplication_accepts_every_input
    [of sample_env instalment_without_amount empty_storage]
  by (simp add: sample_simps)

subsection \<open>Trust rules and tiers\<close>

lemma slug_of_sample: "slug_of ''Lagos  Dental Care'' = ''lagos-dental-care''"
  by code_simp

lemma registerBusiness_trustRules:
  "trustRules (snd (registerBusiness env data st)) (business_uuid env)
     = Some (defaultRules (business_uuid env))"
  by (simp add: registerBusiness_def Let_def)

text \<open>
  C8. The tier mapping compares the score with the configured thresholds from the
  highest to the lowest. With the default configuration (80, 60, 40, 20), both as the
  page initialises it and as it loads it from the default trust rules of the backend, 80
  is TRUSTED, 79 and 60 are VERIFIED, 59 and 40 are NEW, 39 and 20 are RESTRICTED, and
  19 is DEFAULTED.
\<close>

theorem getTrustStateName_tiers:
  "name (getTrustStateName rules score) =
     (if score \<ge> trustedThreshold rules then ''TRUSTED''
      else if score \<ge> verifiedThreshold rules then ''VERIFIED''
      else if score \<ge> newCustomerThreshold rules then ''NEW''
      else if score \<ge> restrictedThreshold rules then ''RESTRICTED''
      else ''DEFAULTED'')
   \<and> map (\<lambda>score. name (getTrustStateName initialRules score))
         [80, 79, 60, 59, 40, 39, 20, 19]
       = [''TRUSTED'', ''VERIFIED'', ''VERIFIED'', ''NEW'', ''NEW'',
          ''RESTRICTED'', ''RESTRICTED'', ''DEFAULTED'']
   \<and> map (\<lambda>score. name (getTrustStateName (loadRules (defaultRules b)) score))
         [80, 79, 60, 59, 40, 39, 20, 19]
       = [''TRUSTED'', ''VERIFIED'', ''VERIFIED'', ''NEW'', ''NEW'',
          ''RESTRICTED'', ''RESTRICTED'', ''DEFAULTED'']"
  by (simp add: getTrustStateName_def initialRules_def loadRules_def defaultRules_def)

text \<open>
  C9, as the claim states it, fails on the code: the trust rules that
  \<^verbatim>\<open>registerBusiness\<close> creates have \<^verbatim>\<open>auto_decline_threshold\<close> 30, not 40.
\<close>

theorem registerBusiness_decline_threshold_counterexample:
  "map_option TrustRulesData.auto_approve_threshold
     (trustRules (snd (registerBusiness sample_register_env sample_registration empty_storage))
        ''b-1'') = Some 70
   \<and> map_option TrustRulesData.auto_decline_threshold
     (trustRules (snd (registerBusiness sample_register_env sample_registration empty_storage))
        ''b-1'') = Some 30
   \<and> map_option TrustRulesData.auto_decline_threshold
     (trustRules (snd (registerBusiness sample_register_env sample_registration empty_storage))
        ''b-1'') \<noteq> Some 40
   \<and> payment_slug (fst (registerBusiness sample_register_env sample_registration empty_storage))
       = ''lagos-dental-care''"
  by (simp add: registerBusiness_def Let_def sample_register_env_def defaultRules_def
      sample_registration_def slug_of_sample)

text \<open>
  C9, amended. When a business has no stored trust rules, reading them returns (and
  stores) the defaults 80, 60, 40, 20 with \<^verbatim>\<open>auto_approve_threshold\<close> 70 and
  \<^verbatim>\<open>auto_decline_threshold\<close> 30; the trust rules created at registration by
  \<^verbatim>\<open>registerBusiness\<close> are the same defaults, with 70 and 30. The pair 70 and 40 is that
  of the columns \<^verbatim>\<open>auto_approve_threshold\<close> and \<^verbatim>\<open>auto_decline_threshold\<close> of the
  \<^verbatim>\<open>payment_rules\<close> row that the registration page inserts.
\<close>

theorem default_trust_rules:
  "(trustRules st businessId = None \<longrightarrow>
      fst (getTrustRules businessId st) = defaultRules businessId
      \<and> trustRules (snd (getTrustRules businessId st)) businessId
          = Some (defaultRules businessId))
   \<and> trustRules (snd (registerBusiness env data st)) (business_uuid env)
       = Some (defaultRules (business_uuid env))
   \<and> trusted_min (defaultRules b) = 80
   \<and> verified_min (defaultRules b) = 60
   \<and> new_min (defaultRules b) = 40
   \<and> restricted_min (defaultRules b) = 20
   \<and> TrustRulesData.auto_approve_threshold (defaultRules b) = 70
   \<and> TrustRulesData.auto_decline_threshold (defaultRules b) = 30
   \<and> PaymentRulesRow.auto_approve_threshold (insert_payment_rules b) = 70
   \<and> PaymentRulesRow.auto_decline_threshold (insert_payment_rules b) = 40"
proof -
  have "trustRules st businessId = None \<longrightarrow>
      fst (getTrustRules businessId st) = defaultRules businessId
      \<and> trustRules (snd (getTrustRules businessId st)) businessId
          = Some (defaultRules businessId)"
    by (simp add: getTrustRules_def Let_def)
  then show ?thesis
    by (simp add: registerBusiness_trustRules)
       (simp add: defaultRules_def insert_payment_rules_def)
qed

theorem default_trust_rules_witness:
  "trustRules empty_storage ''b-1'' = None
   \<and> TrustRulesData.auto_approve_threshold (fst (getTrustRules ''b-1'' empty_storage)) = 70
   \<and> TrustRulesData.auto_decline_threshold (fst (getTrustRules ''b-1'' empty_storage)) = 30
   \<and> trustRules (snd (getTrustRules ''b-1'' empty_storage)) ''b-1''
       = Some (defaultRules ''b-1'')"
  using default_trust_rules
    [of empty_storage "''b-1''" sample_register_env sample_registration "''b-1''"]
  by (simp add: empty_storage_def)

subsection \<open>The instalment schedule\<close>


lemma getInstalmentSchedule_exact:
  assumes "totalAmount formData = Some a" and "max_instalment_period rules \<noteq> 0"
  shows "getInstalmentSchedule (\<lambda>x. x) INSTALMENT formData (Some rules) =
     Schedule
       \<lparr> downPayment = a * down_payment_percentage rules / 100,
         installmentAmount =
           ((a - a * down_payment_percentage rules / 100)
            + (if enable_fees rules
               then (a - a * down_payment_percentage rules / 100) * interest_rate rules / 100
               else 0) * of_int (max_instalment_period rules))
           / of_int (max_instalment_period rules),
         numInstalments = max_instalment_period rules,
         totalInterest =
           (if enable_fees rules
            then (a - a * down_payment_percentage rules / 100) * interest_rate rules / 100
            else 0) * of_int (max_instalment_period rules),
         total = a +
           (if enable_fees rules
            then (a - a * down_payment_percentage rules / 100) * interest_rate rules / 100
            else 0) * of_int (max_instalment_period rules),
         schedule = map (\<lambda>i.
           \<lparr> number = i,
             date = (if paymentFrequency formData = monthly
                     then SetMonth (preferredStartDate formData) (i - 1)
                     else SetDate (preferredStartDate formData)
                            (intervalDays (paymentFrequency formData) * (i - 1))),
             amount =
               ((a - a * down_payment_percentage rules / 100)
                + (if enable_fees rules
                   then (a - a * down_payment_percentage rules / 100) * interest_rate rules / 100
                   else 0) * of_int (max_instalment_period rules))
               / of_int (max_instalment_period rules) \<rparr>) [1..max_instalment_period rules] \<rparr>"
  using assms by (simp add: getInstalmentSchedule_def Let_def)

lemma upto_1_6: "[1..6::int] = [1, 2, 3, 4, 5, 6]"
  by (simp add: upto.simps)

lemma binary64_values:
  "binary64 0 = 0"
  "binary64 17500 = 17500"
  "binary64 35000 = 35000"
  "binary64 45000 = 45000"
  "binary64 52500 = 52500"
  "binary64 70000 = 70000"
  "binary64 87500 = 87500"
  "binary64 105000 = 105000"
  "binary64 150000 = 150000"
  "binary64 4500000 = 4500000"
  by (simp_all add: binary64_def round_half_even_def)

text \<open>The double nearest to one tenth, as a check of the rounding.\<close>

lemma binary64_tenth: "binary64 (1 / 10) = 3602879701896397 / 36028797018963968"
  by (simp add: binary64_def round_half_even_def)

lemma sample_schedule_binary64:
  "getInstalmentSchedule binary64 INSTALMENT sample_form (Some (insert_payment_rules b)) =
     Schedule
       \<lparr> downPayment = 45000, installmentAmount = 17500, numInstalments = 6,
         totalInterest = 0, total = 150000,
         schedule =
           map (\<lambda>i. \<lparr>number = i, date = SetMonth ''2026-02-01'' (i - 1), amount = 17500\<rparr>)
             [1, 2, 3, 4, 5, 6] \<rparr>"
  by (simp add: getInstalmentSchedule_def sample_form_def insert_payment_rules_def Let_def
      binary64_values upto_1_6)



text \<open>
  C6. In exact arithmetic, for an INSTALMENT form with the amount \<open>a\<close> and rules with
  \<open>N \<ge> 1\<close> instalments, the generator returns a schedule with
  \<open>down_payment = a \<times> percentage / 100\<close>, \<open>remaining = a - down_payment\<close>,
  \<open>total_interest = (enable_fees ? remaining \<times> interest_rate / 100 : 0) \<times> N\<close>,
  \<open>installment_amount = (remaining + total_interest) / N\<close>, \<open>total = a + total_interest\<close>,
  and \<open>N\<close> entries numbered 1 to \<open>N\<close>, each of the instalment amount (this last part
  whatever the arithmetic \<open>fl\<close>). For 150,000 with 30 percent down, six instalments and
  no fees (the defaults of the schema) it yields the down payment 45,000, the instalment
  17,500 and the total 150,000, in double-precision arithmetic too.
\<close>

theorem getInstalmentSchedule_formulas:
  assumes "totalAmount formData = Some a" and "1 \<le> max_instalment_period rules"
  shows "(\<exists>s. getInstalmentSchedule fl INSTALMENT formData (Some rules) = Schedule s
       \<and> numInstalments s = max_instalment_period rules
       \<and> map number (schedule s) = [1..max_instalment_period rules]
       \<and> map amount (schedule s)
           = replicate (nat (max_instalment_period rules)) (installmentAmount s))
     \<and> (\<exists>s. getInstalmentSchedule (\<lambda>x. x) INSTALMENT formData (Some rules) = Schedule s
       \<and> downPayment s = a * down_payment_percentage rules / 100
       \<and> totalInterest s =
            (if enable_fees rules then (a - downPayment s) * interest_rate rules / 100 else 0)
              * of_int (max_instalment_period rules)
       \<and> installmentAmount s =
            ((a - downPayment s) + totalInterest s) / of_int (max_instalment_period rules)
       \<and> numInstalments s = max_instalment_period rules
       \<and> total s = a + totalInterest s
       \<and> map number (schedule s) = [1..max_instalment_period rules]
       \<and> map amount (schedule s)
           = replicate (nat (max_instalment_period rules)) (installmentAmount s))
     \<and> (\<exists>s. getInstalmentSchedule binary64 INSTALMENT sample_form
              (Some (insert_payment_rules b)) = Schedule s
       \<and> downPayment s = 45000 \<and> installmentAmount s = 17500 \<and> numInstalments s = 6
       \<and> totalInterest s = 0 \<and> total s = 150000
       \<and> map amount (schedule s) = [17500, 17500, 17500, 17500, 17500, 17500])"
proof -
  from assms(2) have n: "max_instalment_period rules \<noteq> 0"
    by simp
  have "\<exists>s. getInstalmentSchedule fl INSTALMENT formData (Some rules) = Schedule s
       \<and> numInstalments s = max_instalment_period rules
       \<and> map number (schedule s) = [1..max_instalment_period rules]
       \<and> map amount (schedule s)
           = replicate (nat (max_instalment_period rules)) (installmentAmount s)"
    using assms(1) n
    by (simp add: getInstalmentSchedule_def Let_def o_def map_replicate_const)
  moreover note eq = getInstalmentSchedule_exact [OF assms(1) n]
  ultimately show ?thesis
    unfolding eq sample_schedule_binary64
    by (simp add: o_def map_replicate_const)
qed

theorem getInstalmentSchedule_formulas_witness:
  "totalAmount sample_form = Some 150000
   \<and> 1 \<le> max_instalment_period (insert_payment_rules ''b-1'')
   \<and> (\<exists>s. getInstalmentSchedule (\<lambda>x. x) INSTALMENT sample_form
            (Some (insert_payment_rules ''b-1'')) = Schedule s
        \<and> downPayment s = 45000 \<and> installmentAmount s = 17500 \<and> total s = 150000
        \<and> map number (schedule s) = [1, 2, 3, 4, 5, 6]
        \<and> map amount (schedule s) = [17500, 17500, 17500, 17500, 17500, 17500])"
proof -
  have amount: "totalAmount sample_form = Some 150000"
    by (simp add: sample_form_def)
  have count: "1 \<le> max_instalment_period (insert_payment_rules ''b-1'')"
    by (simp add: insert_payment_rules_def)
  have six: "replicate 6 (17500::real) = [17500, 17500, 17500, 17500, 17500, 17500]"
    by (simp add: eval_nat_numeral)
  show ?thesis
    using getInstalmentSchedule_formulas
      [OF amount count, where fl = binary64 and b = "''b-1''"] amount count
    by (auto simp: insert_payment_rules_def upto_1_6 six)
qed




end
